theory Spec2Isabelle
  imports Main
begin

unbundle bit_operations_syntax

section \<open>ComputerCraft block base class (apps/code/block.js)\<close>

text \<open>
  A shallow embedding of \<^verbatim>\<open>Blockly.ComputerCraft\<close>: the derivation of block names,
  the configuration of a block in \<^verbatim>\<open>init\<close>, and the generation of Lua code.

  JavaScript strings are modelled as \<^typ>\<open>string\<close>, each \<^typ>\<open>char\<close> standing for one ASCII
  character. An optional property of an object is an
  \<^typ>\<open>'a option\<close>, \<^term>\<open>None\<close> standing for \<^verbatim>\<open>undefined\<close>. A failed
  \<^verbatim>\<open>goog.asserts\<close> call throws; it is modelled as the \<^term>\<open>Inl\<close> branch of a sum,
  carrying the message given at the call site.
\<close>

subsection \<open>JavaScript values\<close>

datatype error = AssertionError string

definition goog_asserts_assert :: "bool \<Rightarrow> string \<Rightarrow> error + unit" where
  "goog_asserts_assert condition message =
     (if condition then Inr () else Inl (AssertionError message))"

definition goog_asserts_fail :: "string \<Rightarrow> error + 'a" where
  "goog_asserts_fail message = Inl (AssertionError message)"

text \<open>Truthiness of an optional string: \<^verbatim>\<open>undefined\<close> and \<^verbatim>\<open>''\<close> are falsy.\<close>

definition truthy_string :: "string option \<Rightarrow> bool" where
  "truthy_string v = (case v of None \<Rightarrow> False | Some s \<Rightarrow> s \<noteq> [])"

text \<open>Truthiness of an optional number: \<^verbatim>\<open>undefined\<close> and \<^verbatim>\<open>0\<close> are falsy.\<close>

definition truthy_number :: "nat option \<Rightarrow> bool" where
  "truthy_number v = (case v of None \<Rightarrow> False | Some n \<Rightarrow> n \<noteq> 0)"

text \<open>The string that \<^verbatim>\<open>+\<close> concatenates for an optional string.\<close>

definition to_string :: "string option \<Rightarrow> string" where
  "to_string v = (case v of None \<Rightarrow> ''undefined'' | Some s \<Rightarrow> s)"

subsection \<open>Characters and case\<close>

definition is_az :: "char \<Rightarrow> bool" where
  "is_az c = (97 \<le> (of_char c :: nat) \<and> (of_char c :: nat) \<le> 122)"

definition is_AZ :: "char \<Rightarrow> bool" where
  "is_AZ c = (65 \<le> (of_char c :: nat) \<and> (of_char c :: nat) \<le> 90)"

text \<open>
  \<^verbatim>\<open>String.prototype.toLowerCase\<close> and \<^verbatim>\<open>toUpperCase\<close> on ASCII: the letters A to Z
  move up by 32, the letters a to z move down by 32, every other ASCII character stays.
  Code units from 128 on are outside what this development covers; the functions leave
  them alone.
\<close>

definition toLowerCase_char :: "char \<Rightarrow> char" where
  "toLowerCase_char c = (if is_AZ c then char_of ((of_char c :: nat) + 32) else c)"

definition toLowerCase :: "string \<Rightarrow> string" where
  "toLowerCase s = map toLowerCase_char s"

definition toUpperCase_char :: "char \<Rightarrow> char" where
  "toUpperCase_char c = (if is_az c then char_of ((of_char c :: nat) - 32) else c)"

definition toUpperCase :: "string \<Rightarrow> string" where
  "toUpperCase s = map toUpperCase_char s"

text \<open>\<^verbatim>\<open>s.charAt(0)\<close> is the empty string on the empty string; \<^verbatim>\<open>s.slice(1)\<close> drops one character.\<close>

definition charAt0 :: "string \<Rightarrow> string" where
  "charAt0 s = take 1 s"

definition slice1 :: "string \<Rightarrow> string" where
  "slice1 s = drop 1 s"

subsection \<open>Name derivation\<close>

text \<open>
  \<^verbatim>\<open>s.replace(/([a-z])(?=[A-Z])/g, '$1_')\<close>: every lower-case letter that is
  followed by an upper-case letter is replaced by itself and an underscore. The
  lookahead consumes nothing, so the scan goes on at the next character.
\<close>

fun replace_LOWER_TO_UPPER :: "string \<Rightarrow> string" where
  "replace_LOWER_TO_UPPER (c # d # cs) =
     (if is_az c \<and> is_AZ d then c # CHR ''_'' # replace_LOWER_TO_UPPER (d # cs)
      else c # replace_LOWER_TO_UPPER (d # cs))"
| "replace_LOWER_TO_UPPER cs = cs"

definition convertFromCamelCase :: "string \<Rightarrow> string" where
  "convertFromCamelCase s = toLowerCase (replace_LOWER_TO_UPPER s)"

subsection \<open>Block information\<close>

text \<open>
  The \<^verbatim>\<open>info\<close> object handed to the constructor. The type \<^typ>\<open>'f\<close> stands for the
  function values that may be given as a tooltip. \<^verbatim>\<open>output\<close> is \<^term>\<open>None\<close> when
  undefined; when defined it is \<^verbatim>\<open>null\<close>, a type name or an array of type names.
\<close>

datatype 'f tooltip_value = TooltipString string | TooltipFunction 'f

datatype output_type = TypeNull | TypeString string | TypeArray "string list"

record 'f block_info =
  blockName :: "string option"
  funcName :: "string option"
  output' :: "output_type option"
  stmtConns :: "nat option"
  multipleOutputs :: "nat option"
  tooltip :: "'f tooltip_value option"
  helpUrl :: "string option"
  helpUrlType :: "nat option"

definition BASE_HELP_URL :: string where
  "BASE_HELP_URL = ''http://computercraft.info/wiki/''"

text \<open>\<^verbatim>\<open>Blockly.ComputerCraft.StmtConns\<close>\<close>

definition NONE :: nat where "NONE = 0"
definition PREVIOUS :: nat where "PREVIOUS = 1"
definition NEXT :: nat where "NEXT = 2"
definition BOTH :: nat where "BOTH = 3"

text \<open>\<^verbatim>\<open>Blockly.ComputerCraft.HelpUrlType\<close>\<close>

definition PREFIX_NAME :: nat where "PREFIX_NAME = 1"
definition PREFIX_DD :: nat where "PREFIX_DD = 2"

text \<open>A tooltip is falsy when it is undefined or the empty string; a function is truthy.\<close>

definition truthy_tooltip :: "'f tooltip_value option \<Rightarrow> bool" where
  "truthy_tooltip v =
     (case v of None \<Rightarrow> False
      | Some (TooltipString s) \<Rightarrow> s \<noteq> []
      | Some (TooltipFunction f) \<Rightarrow> True)"

text \<open>An output is falsy when it is undefined, \<^verbatim>\<open>null\<close> or the empty string; an array is truthy.\<close>

definition truthy_output :: "output_type option \<Rightarrow> bool" where
  "truthy_output v =
     (case v of None \<Rightarrow> False
      | Some TypeNull \<Rightarrow> False
      | Some (TypeString s) \<Rightarrow> s \<noteq> []
      | Some (TypeArray ts) \<Rightarrow> True)"

definition getBlockName :: "string \<Rightarrow> 'f block_info \<Rightarrow> error + string" where
  "getBlockName prefix info =
     (case (if \<not> truthy_string (blockName info)
            then (case goog_asserts_assert (truthy_string (funcName info))
                         ''info.funcName not defined'' of
                    Inl e \<Rightarrow> Inl e
                  | Inr _ \<Rightarrow> Inr (convertFromCamelCase (to_string (funcName info))))
            else Inr (to_string (blockName info))) of
        Inl e \<Rightarrow> Inl e
      | Inr name \<Rightarrow> Inr (prefix @ ''_'' @ name))"

subsection \<open>The block object\<close>

text \<open>
  \<^verbatim>\<open>init\<close> runs with \<^verbatim>\<open>this\<close> bound to a block. The record holds the properties the
  constructor sets (\<^verbatim>\<open>prefix\<close>, \<^verbatim>\<open>colour\<close>, \<^verbatim>\<open>info\<close>, \<^verbatim>\<open>blockName\<close>), the properties
  \<^verbatim>\<open>init\<close> assigns (\<^verbatim>\<open>helpUrl\<close>, \<^verbatim>\<open>multipleOutputs\<close>) and the state of the host block
  behind its setters. The properties of the block that share a name with a property of
  \<^verbatim>\<open>info\<close> carry the prefix \<open>this_\<close>.
\<close>

datatype host_tooltip = TooltipText string | TooltipClosure

record 'f block =
  prefix :: string
  colour :: nat
  info :: "'f block_info"
  this_blockName :: string
  this_helpUrl :: "string option"
  this_multipleOutputs :: "nat option"
  host_colour :: "nat option"
  inputsInline :: "bool option"
  host_tooltip :: "host_tooltip option"
  previousConnection :: bool
  nextConnection :: bool
  outputConnection :: "output_type option option"

text \<open>
  Modelled from the spec: the setters of the host block (\<^verbatim>\<open>setColour\<close>,
  \<^verbatim>\<open>setInputsInline\<close>, \<^verbatim>\<open>setTooltip\<close>, \<^verbatim>\<open>setPreviousStatement\<close>, \<^verbatim>\<open>setNextStatement\<close>,
  \<^verbatim>\<open>setOutput\<close>) belong to the editor framework and are not part of this file. Each one
  records its argument in the state of the host block: a statement connector is there
  exactly when the last call enabled it, and an output connection holds the type check
  it was given (\<^term>\<open>None\<close> when the argument was left out).
\<close>

definition setColour :: "nat \<Rightarrow> 'f block \<Rightarrow> 'f block" where
  "setColour c b = b\<lparr>host_colour := Some c\<rparr>"

definition setInputsInline :: "bool \<Rightarrow> 'f block \<Rightarrow> 'f block" where
  "setInputsInline v b = b\<lparr>inputsInline := Some v\<rparr>"

definition setTooltip :: "host_tooltip \<Rightarrow> 'f block \<Rightarrow> 'f block" where
  "setTooltip t b = b\<lparr>host_tooltip := Some t\<rparr>"

definition setPreviousStatement :: "bool \<Rightarrow> 'f block \<Rightarrow> 'f block" where
  "setPreviousStatement v b = b\<lparr>previousConnection := v\<rparr>"

definition setNextStatement :: "bool \<Rightarrow> 'f block \<Rightarrow> 'f block" where
  "setNextStatement v b = b\<lparr>nextConnection := v\<rparr>"

definition setOutput :: "bool \<Rightarrow> output_type option \<Rightarrow> 'f block \<Rightarrow> 'f block" where
  "setOutput v check b = b\<lparr>outputConnection := (if v then Some check else None)\<rparr>"

text \<open>
  The constructor. The host state starts out as that of a block nothing has been
  configured on.
\<close>

definition Block :: "string \<Rightarrow> nat \<Rightarrow> 'f block_info \<Rightarrow> error + 'f block" where
  "Block prefix_arg colour_arg info_arg =
     (case getBlockName prefix_arg info_arg of
        Inl e \<Rightarrow> Inl e
      | Inr name \<Rightarrow>
          Inr \<lparr>prefix = prefix_arg, colour = colour_arg, info = info_arg,
               this_blockName = name, this_helpUrl = None, this_multipleOutputs = None,
               host_colour = None, inputsInline = None, host_tooltip = None,
               previousConnection = False, nextConnection = False,
               outputConnection = None\<rparr>)"

text \<open>The steps of \<^verbatim>\<open>init\<close>, one definition for each statement, in the order of the source.\<close>

definition init_helpUrl :: "'f block \<Rightarrow> 'f block" where
  "init_helpUrl b =
     (if helpUrlType (info b) = Some PREFIX_NAME
      then b\<lparr>this_helpUrl :=
               Some (BASE_HELP_URL @ toUpperCase (charAt0 (prefix b)) @ slice1 (prefix b)
                     @ ''.'' @ to_string (funcName (info b)))\<rparr>
      else b)"

definition init_tooltip :: "'f block \<Rightarrow> 'f block" where
  "init_tooltip b =
     (if truthy_tooltip (tooltip (info b))
      then (case tooltip (info b) of
              Some (TooltipFunction f) \<Rightarrow> setTooltip TooltipClosure b
            | Some (TooltipString s) \<Rightarrow> setTooltip (TooltipText s) b
            | None \<Rightarrow> b)
      else b)"

definition init_default_stmtConns :: "'f block \<Rightarrow> 'f block" where
  "init_default_stmtConns b =
     (if \<not> truthy_number (multipleOutputs (info b)) \<and> output' (info b) = None
         \<and> stmtConns (info b) \<noteq> Some NONE
      then b\<lparr>info := (info b)\<lparr>stmtConns := Some BOTH\<rparr>\<rparr>
      else b)"

definition init_stmtConns :: "'f block \<Rightarrow> 'f block" where
  "init_stmtConns b =
     (case stmtConns (info b) of
        None \<Rightarrow> b
      | Some n \<Rightarrow>
          if n \<noteq> 0
          then setNextStatement ((n AND NEXT) \<noteq> 0)
                 (setPreviousStatement ((n AND PREVIOUS) \<noteq> 0) b)
          else b)"

definition init_output :: "'f block \<Rightarrow> 'f block" where
  "init_output b =
     (if output' (info b) \<noteq> None then setOutput True (output' (info b)) b else b)"

definition init_multipleOutputs :: "'f block \<Rightarrow> 'f block" where
  "init_multipleOutputs b =
     (if truthy_number (multipleOutputs (info b))
      then (let b' = b\<lparr>this_multipleOutputs := multipleOutputs (info b)\<rparr>
            in if \<not> truthy_output (output' (info b')) then setOutput True None b' else b')
      else b)"

definition init :: "'f block \<Rightarrow> 'f block" where
  "init b =
     init_multipleOutputs
       (init_output
         (init_stmtConns
           (init_default_stmtConns
             (init_tooltip
               (init_helpUrl
                 (setInputsInline True
                   (setColour (colour b) b)))))))"

subsection \<open>Code generation\<close>

text \<open>
  What \<^verbatim>\<open>generateLuaInner_\<close> asks of the block and of the Lua generator is not part of this
  file and is taken as a parameter: the ordered parameter names, the lookup of an input
  and of a title by name, the test whether a title is a \<^verbatim>\<open>Blockly.FieldDropdown\<close>, the
  code generator of a value input (which runs the generators of the blocks plugged in and
  may throw), the function name, the constant \<^verbatim>\<open>Blockly.Lua.ORDER_HIGH\<close>, and the method
  \<^verbatim>\<open>generateDropdownCode\<close> as the block's class has it (the base one below, or an
  override). The type \<^typ>\<open>'t\<close> is that of titles. The names \<^verbatim>\<open>getTitle_\<close> and
  \<^verbatim>\<open>generateLuaInner_\<close> lose their final underscore.
\<close>

datatype input_type = INPUT_VALUE | NEXT_STATEMENT | DUMMY_INPUT

record block_input =
  input_name :: string
  input_type :: input_type

record 't generator =
  getOrderedParameterNames :: "string list"
  getInput :: "string \<Rightarrow> block_input option"
  getTitle :: "string \<Rightarrow> 't option"
  instanceof_FieldDropdown :: "'t \<Rightarrow> bool"
  valueToCode :: "string \<Rightarrow> error + string"
  dropdownCode :: "'t \<Rightarrow> error + string option"
  getFuncName :: string
  ORDER_HIGH :: nat

text \<open>The base implementation of the dropdown hook.\<close>

definition generateDropdownCode :: "'t \<Rightarrow> error + string option" where
  "generateDropdownCode field = goog_asserts_fail ''generateDropdownCode() must be overridden.''"

text \<open>
  The body of the callback given to \<^verbatim>\<open>forEach\<close>: one parameter name, the array so far.
  The assertion on \<^verbatim>\<open>title\<close> fails exactly when no title of that name is found.
\<close>

definition parameter_code :: "'t generator \<Rightarrow> string \<Rightarrow> string list \<Rightarrow> error + string list" where
  "parameter_code g name inputsCode =
     (case getInput g name of
        Some input \<Rightarrow>
          (case goog_asserts_assert (input_type input = INPUT_VALUE) [] of
             Inl e \<Rightarrow> Inl e
           | Inr _ \<Rightarrow>
               (case valueToCode g (input_name input) of
                  Inl e \<Rightarrow> Inl e
                | Inr code \<Rightarrow> Inr (inputsCode @ [code])))
      | None \<Rightarrow>
          (case getTitle g name of
             None \<Rightarrow> Inl (AssertionError (''Unable to find input or title named '' @ name))
           | Some title \<Rightarrow>
               (case goog_asserts_assert (instanceof_FieldDropdown g title)
                       ''Only value inputs and dropdowns are currently supported.'' of
                  Inl e \<Rightarrow> Inl e
                | Inr _ \<Rightarrow>
                    (case dropdownCode g title of
                       Inl e \<Rightarrow> Inl e
                     | Inr result \<Rightarrow>
                         if truthy_string result
                         then Inr (inputsCode @ [to_string result])
                         else Inr inputsCode))))"

text \<open>\<^verbatim>\<open>forEach\<close>: the names from left to right; a throw ends the loop.\<close>

fun forEach_parameter :: "'t generator \<Rightarrow> string list \<Rightarrow> string list \<Rightarrow> error + string list" where
  "forEach_parameter g [] inputsCode = Inr inputsCode"
| "forEach_parameter g (name # names) inputsCode =
     (case parameter_code g name inputsCode of
        Inl e \<Rightarrow> Inl e
      | Inr inputsCode' \<Rightarrow> forEach_parameter g names inputsCode')"

text \<open>\<^verbatim>\<open>Array.prototype.join\<close>\<close>

fun join :: "string \<Rightarrow> string list \<Rightarrow> string" where
  "join sep [] = []"
| "join sep [x] = x"
| "join sep (x # y # ys) = x @ sep @ join sep (y # ys)"

definition generateLuaInner :: "'t generator \<Rightarrow> error + string" where
  "generateLuaInner g =
     (case forEach_parameter g (getOrderedParameterNames g) [] of
        Inl e \<Rightarrow> Inl e
      | Inr inputsCode \<Rightarrow> Inr (getFuncName g @ ''('' @ join '', '' inputsCode @ '')''))"

text \<open>The result of \<^verbatim>\<open>generateLua\<close>: an array of code and order, or a string.\<close>

datatype lua_code = CodeAndOrder string nat | CodeString string

definition generateLua :: "'t generator \<Rightarrow> 'f block \<Rightarrow> error + lua_code" where
  "generateLua g b =
     (case generateLuaInner g of
        Inl e \<Rightarrow> Inl e
      | Inr code \<Rightarrow>
          if outputConnection b \<noteq> None
          then Inr (CodeAndOrder code (ORDER_HIGH g))
          else Inr (CodeString (code @ [CHR 0x0A])))"

subsection \<open>The rules the code is checked against\<close>

text \<open>
  The underscore rule for mixed-case names, stated on positions: position \<open>i\<close> starts a
  run of upper-case letters when it holds an upper-case letter and the position before
  it does not; the run is preceded by a lower-case letter when the position before it
  holds one. An underscore goes before each such run, and every letter is lower-cased.
\<close>

definition is_ascii_letter :: "char \<Rightarrow> bool" where
  "is_ascii_letter c = (is_az c \<or> is_AZ c)"

definition starts_uppercase_run :: "string \<Rightarrow> nat \<Rightarrow> bool" where
  "starts_uppercase_run s i = (is_AZ (s ! i) \<and> (i = 0 \<or> \<not> is_AZ (s ! (i - 1))))"

definition preceded_by_lowercase :: "string \<Rightarrow> nat \<Rightarrow> bool" where
  "preceded_by_lowercase s i = (0 < i \<and> is_az (s ! (i - 1)))"

definition underscore_at :: "string \<Rightarrow> nat \<Rightarrow> string" where
  "underscore_at s i =
     (if starts_uppercase_run s i \<and> preceded_by_lowercase s i then ''_'' else [])
     @ [toLowerCase_char (s ! i)]"

definition mixed_case_rule :: "string \<Rightarrow> string" where
  "mixed_case_rule s = concat (map (underscore_at s) [0..<length s])"

text \<open>The object \<^verbatim>\<open>{}\<close>: no property is defined.\<close>

definition empty_info :: "'f block_info" where
  "empty_info =
     \<lparr>blockName = None, funcName = None, output' = None, stmtConns = None,
      multipleOutputs = None, tooltip = None, helpUrl = None, helpUrlType = None\<rparr>"

text \<open>
  How a parameter name resolves on a block: to a value input, to an input of another
  type, to a dropdown title, to a title of another class, or to nothing. An input is
  looked for first.
\<close>

datatype 't resolution =
  ValueInput block_input | OtherInput block_input | Dropdown 't | OtherTitle 't | NotFound

definition resolve :: "'t generator \<Rightarrow> string \<Rightarrow> 't resolution" where
  "resolve g name =
     (case getInput g name of
        Some input \<Rightarrow> if input_type input = INPUT_VALUE then ValueInput input else OtherInput input
      | None \<Rightarrow>
          (case getTitle g name of
             None \<Rightarrow> NotFound
           | Some title \<Rightarrow>
               if instanceof_FieldDropdown g title then Dropdown title else OtherTitle title))"

definition resolves_well :: "'t generator \<Rightarrow> string \<Rightarrow> bool" where
  "resolves_well g name =
     (case resolve g name of ValueInput _ \<Rightarrow> True | Dropdown _ \<Rightarrow> True | _ \<Rightarrow> False)"

text \<open>The assertion that a badly resolving name trips.\<close>

definition invariant_error :: "'t generator \<Rightarrow> string \<Rightarrow> error option" where
  "invariant_error g name =
     (case resolve g name of
        OtherInput _ \<Rightarrow> Some (AssertionError [])
      | NotFound \<Rightarrow> Some (AssertionError (''Unable to find input or title named '' @ name))
      | OtherTitle _ \<Rightarrow>
          Some (AssertionError ''Only value inputs and dropdowns are currently supported.'')
      | _ \<Rightarrow> None)"

text \<open>
  What the code generator of a value input, or the dropdown hook, answers for a name
  that resolves well.
\<close>

definition collaborator_result :: "'t generator \<Rightarrow> string \<Rightarrow> (error + string option) option" where
  "collaborator_result g name =
     (case resolve g name of
        ValueInput input \<Rightarrow> Some (map_sum id Some (valueToCode g (input_name input)))
      | Dropdown title \<Rightarrow> Some (dropdownCode g title)
      | _ \<Rightarrow> None)"

definition collaborator_succeeds :: "'t generator \<Rightarrow> string \<Rightarrow> bool" where
  "collaborator_succeeds g name =
     (case collaborator_result g name of Some (Inr _) \<Rightarrow> True | _ \<Rightarrow> False)"

text \<open>
  The fragments a name contributes to the argument list: the code of a value input, as
  it is; the result of the dropdown hook unless it is falsy.
\<close>

definition fragments :: "'t generator \<Rightarrow> string \<Rightarrow> string list" where
  "fragments g name =
     (case resolve g name of
        ValueInput input \<Rightarrow>
          (case valueToCode g (input_name input) of Inr code \<Rightarrow> [code] | Inl _ \<Rightarrow> [])
      | Dropdown title \<Rightarrow>
          (case dropdownCode g title of
             Inr result \<Rightarrow> if truthy_string result then [to_string result] else []
           | Inl _ \<Rightarrow> [])
      | _ \<Rightarrow> [])"

section \<open>Properties\<close>

subsection \<open>Auxiliary facts\<close>

lemma is_az_not_AZ: "is_az c \<Longrightarrow> \<not> is_AZ c"
  by (simp add: is_az_def is_AZ_def)

lemma is_az_toLowerCase_char: "is_ascii_letter c \<Longrightarrow> is_az (toLowerCase_char c)"
  by (auto simp: is_ascii_letter_def toLowerCase_char_def is_az_def is_AZ_def)

lemma underscore_at_0: "underscore_at s 0 = [toLowerCase_char (s ! 0)]"
  by (simp add: underscore_at_def preceded_by_lowercase_def)

lemma underscore_at_1:
  "underscore_at (c # d # cs) (Suc 0) =
     (if is_az c \<and> is_AZ d then ''_'' else []) @ [toLowerCase_char d]"
  by (auto simp: underscore_at_def preceded_by_lowercase_def starts_uppercase_run_def
      dest: is_az_not_AZ)

lemma underscore_at_Suc_Suc:
  "underscore_at (c # cs) (Suc (Suc i)) = underscore_at cs (Suc i)"
  by (simp add: underscore_at_def preceded_by_lowercase_def starts_uppercase_run_def)

lemma mixed_case_rule_Nil: "mixed_case_rule [] = []"
  by (simp add: mixed_case_rule_def)

lemma mixed_case_rule_single: "mixed_case_rule [c] = [toLowerCase_char c]"
  by (simp add: mixed_case_rule_def underscore_at_0)

lemma mixed_case_rule_Cons:
  "mixed_case_rule (c # d # cs) =
     toLowerCase_char c # (if is_az c \<and> is_AZ d then ''_'' else []) @ mixed_case_rule (d # cs)"
proof -
  have "mixed_case_rule (c # d # cs) =
          underscore_at (c # d # cs) 0 @ underscore_at (c # d # cs) (Suc 0)
          @ concat (map (\<lambda>i. underscore_at (c # d # cs) (Suc (Suc i))) [0..<length cs])"
    by (simp add: mixed_case_rule_def map_upt_Suc del: upt_Suc)
  moreover have "mixed_case_rule (d # cs) =
          underscore_at (d # cs) 0
          @ concat (map (\<lambda>i. underscore_at (d # cs) (Suc i)) [0..<length cs])"
    by (simp add: mixed_case_rule_def map_upt_Suc del: upt_Suc)
  ultimately show ?thesis
    by (simp add: underscore_at_0 underscore_at_1 underscore_at_Suc_Suc)
qed

lemma convertFromCamelCase_mixed_case_rule: "convertFromCamelCase s = mixed_case_rule s"
  by (induction s rule: replace_LOWER_TO_UPPER.induct)
    (simp_all add: convertFromCamelCase_def toLowerCase_def mixed_case_rule_Cons
      mixed_case_rule_Nil mixed_case_rule_single toLowerCase_char_def is_AZ_def)

lemma set_replace_LOWER_TO_UPPER:
  "set (replace_LOWER_TO_UPPER s) \<subseteq> insert CHR ''_'' (set s)"
  by (induction s rule: replace_LOWER_TO_UPPER.induct) auto

lemma convertFromCamelCase_lowercase:
  assumes "list_all is_ascii_letter s"
  shows "list_all (\<lambda>c. is_az c \<or> c = CHR ''_'') (convertFromCamelCase s)"
proof -
  have "is_az (toLowerCase_char c) \<or> toLowerCase_char c = CHR ''_''"
    if "c \<in> set (replace_LOWER_TO_UPPER s)" for c
  proof -
    from that set_replace_LOWER_TO_UPPER [of s] have "c = CHR ''_'' \<or> c \<in> set s"
      by auto
    then show ?thesis
    proof
      assume "c = CHR ''_''"
      then show ?thesis by (simp add: toLowerCase_char_def is_AZ_def)
    next
      assume "c \<in> set s"
      with assms have "is_ascii_letter c" by (simp add: list_all_iff)
      then show ?thesis by (simp add: is_az_toLowerCase_char)
    qed
  qed
  then show ?thesis
    by (simp add: convertFromCamelCase_def toLowerCase_def list_all_iff)
qed

lemma replace_LOWER_TO_UPPER_Nil: "replace_LOWER_TO_UPPER s = [] \<longleftrightarrow> s = []"
  by (induction s rule: replace_LOWER_TO_UPPER.induct) auto

lemma convertFromCamelCase_Nil: "convertFromCamelCase s = [] \<longleftrightarrow> s = []"
  by (simp add: convertFromCamelCase_def toLowerCase_def replace_LOWER_TO_UPPER_Nil)

lemma getBlockName_blockName:
  "blockName i = Some n \<Longrightarrow> n \<noteq> [] \<Longrightarrow> getBlockName p i = Inr (p @ ''_'' @ n)"
  by (simp add: getBlockName_def truthy_string_def to_string_def)

lemma getBlockName_funcName:
  "blockName i = None \<or> blockName i = Some [] \<Longrightarrow> funcName i = Some f \<Longrightarrow> f \<noteq> []
   \<Longrightarrow> getBlockName p i = Inr (p @ ''_'' @ convertFromCamelCase f)"
  by (auto simp: getBlockName_def truthy_string_def to_string_def goog_asserts_assert_def)

lemma getBlockName_fails:
  "blockName i = None \<or> blockName i = Some [] \<Longrightarrow>
   funcName i = None \<or> funcName i = Some [] \<Longrightarrow>
   getBlockName p i = Inl (AssertionError ''info.funcName not defined'')"
  by (auto simp: getBlockName_def truthy_string_def goog_asserts_assert_def)

text \<open>What each step of \<^verbatim>\<open>init\<close> does to \<^verbatim>\<open>info\<close> and to the statement connectors.\<close>

lemma info_setColour: "info (setColour c b) = info b"
  by (simp add: setColour_def)

lemma info_setInputsInline: "info (setInputsInline v b) = info b"
  by (simp add: setInputsInline_def)

lemma info_init_helpUrl: "info (init_helpUrl b) = info b"
  by (simp add: init_helpUrl_def)

lemma info_init_tooltip: "info (init_tooltip b) = info b"
  by (simp add: init_tooltip_def setTooltip_def split: option.splits tooltip_value.splits)

lemma info_init_stmtConns: "info (init_stmtConns b) = info b"
  by (simp add: init_stmtConns_def setNextStatement_def setPreviousStatement_def
      split: option.splits)

lemma info_init_output: "info (init_output b) = info b"
  by (simp add: init_output_def setOutput_def)

lemma info_init_multipleOutputs: "info (init_multipleOutputs b) = info b"
  by (simp add: init_multipleOutputs_def setOutput_def Let_def)

lemmas info_steps =
  info_setColour info_setInputsInline info_init_helpUrl info_init_tooltip
  info_init_stmtConns info_init_output info_init_multipleOutputs

lemma info_init:
  "info (init b) =
     (if \<not> truthy_number (multipleOutputs (info b)) \<and> output' (info b) = None
         \<and> stmtConns (info b) \<noteq> Some NONE
      then (info b)\<lparr>stmtConns := Some BOTH\<rparr> else info b)"
  by (simp add: init_def init_default_stmtConns_def info_steps)

lemma connections_setColour:
  "previousConnection (setColour c b) = previousConnection b"
  "nextConnection (setColour c b) = nextConnection b"
  by (simp_all add: setColour_def)

lemma connections_setInputsInline:
  "previousConnection (setInputsInline v b) = previousConnection b"
  "nextConnection (setInputsInline v b) = nextConnection b"
  by (simp_all add: setInputsInline_def)

lemma connections_init_helpUrl:
  "previousConnection (init_helpUrl b) = previousConnection b"
  "nextConnection (init_helpUrl b) = nextConnection b"
  by (simp_all add: init_helpUrl_def)

lemma connections_init_tooltip:
  "previousConnection (init_tooltip b) = previousConnection b"
  "nextConnection (init_tooltip b) = nextConnection b"
  by (simp_all add: init_tooltip_def setTooltip_def split: option.splits tooltip_value.splits)

lemma connections_init_default_stmtConns:
  "previousConnection (init_default_stmtConns b) = previousConnection b"
  "nextConnection (init_default_stmtConns b) = nextConnection b"
  by (simp_all add: init_default_stmtConns_def)

lemma connections_init_output:
  "previousConnection (init_output b) = previousConnection b"
  "nextConnection (init_output b) = nextConnection b"
  by (simp_all add: init_output_def setOutput_def)

lemma connections_init_multipleOutputs:
  "previousConnection (init_multipleOutputs b) = previousConnection b"
  "nextConnection (init_multipleOutputs b) = nextConnection b"
  by (simp_all add: init_multipleOutputs_def setOutput_def Let_def)

lemma connections_init_stmtConns:
  "previousConnection (init_stmtConns b) =
     (case stmtConns (info b) of
        None \<Rightarrow> previousConnection b
      | Some n \<Rightarrow> if n \<noteq> 0 then (n AND PREVIOUS) \<noteq> 0 else previousConnection b)"
  "nextConnection (init_stmtConns b) =
     (case stmtConns (info b) of
        None \<Rightarrow> nextConnection b
      | Some n \<Rightarrow> if n \<noteq> 0 then (n AND NEXT) \<noteq> 0 else nextConnection b)"
  by (simp_all add: init_stmtConns_def setNextStatement_def setPreviousStatement_def
      split: option.splits)

lemmas connections_steps =
  connections_setColour connections_setInputsInline connections_init_helpUrl
  connections_init_tooltip connections_init_default_stmtConns connections_init_output
  connections_init_multipleOutputs

lemma connections_init:
  "previousConnection (init b) =
     (case stmtConns (info (init b)) of
        None \<Rightarrow> previousConnection b
      | Some n \<Rightarrow> if n \<noteq> 0 then (n AND PREVIOUS) \<noteq> 0 else previousConnection b)"
  "nextConnection (init b) =
     (case stmtConns (info (init b)) of
        None \<Rightarrow> nextConnection b
      | Some n \<Rightarrow> if n \<noteq> 0 then (n AND NEXT) \<noteq> 0 else nextConnection b)"
  by (simp_all add: init_def connections_init_stmtConns connections_steps info_steps
      cong: option.case_cong)

lemma BOTH_bits: "(BOTH AND PREVIOUS) \<noteq> 0" "(BOTH AND NEXT) \<noteq> 0" "BOTH \<noteq> 0"
  by (simp_all add: BOTH_def PREVIOUS_def NEXT_def)

lemma this_helpUrl_setters:
  "this_helpUrl (setColour c b) = this_helpUrl b"
  "this_helpUrl (setInputsInline v b) = this_helpUrl b"
  "this_helpUrl (setTooltip t b) = this_helpUrl b"
  "this_helpUrl (setPreviousStatement v b) = this_helpUrl b"
  "this_helpUrl (setNextStatement v b) = this_helpUrl b"
  "this_helpUrl (setOutput v check b) = this_helpUrl b"
  by (simp_all add: setColour_def setInputsInline_def setTooltip_def setPreviousStatement_def
      setNextStatement_def setOutput_def)

lemma this_helpUrl_init_tooltip: "this_helpUrl (init_tooltip b) = this_helpUrl b"
  by (simp add: init_tooltip_def this_helpUrl_setters split: option.splits tooltip_value.splits)

lemma this_helpUrl_init_default_stmtConns:
  "this_helpUrl (init_default_stmtConns b) = this_helpUrl b"
  by (simp add: init_default_stmtConns_def)

lemma this_helpUrl_init_stmtConns: "this_helpUrl (init_stmtConns b) = this_helpUrl b"
  by (simp add: init_stmtConns_def this_helpUrl_setters split: option.splits)

lemma this_helpUrl_init_output: "this_helpUrl (init_output b) = this_helpUrl b"
  by (simp add: init_output_def this_helpUrl_setters)

lemma this_helpUrl_init_multipleOutputs:
  "this_helpUrl (init_multipleOutputs b) = this_helpUrl b"
  by (simp add: init_multipleOutputs_def this_helpUrl_setters Let_def)

lemma this_helpUrl_init:
  "this_helpUrl (init b) =
     (if helpUrlType (info b) = Some PREFIX_NAME
      then Some (BASE_HELP_URL @ toUpperCase (charAt0 (prefix b)) @ slice1 (prefix b)
                 @ ''.'' @ to_string (funcName (info b)))
      else this_helpUrl b)"
proof -
  have "this_helpUrl (init b) =
          this_helpUrl (init_helpUrl (setInputsInline True (setColour (colour b) b)))"
    by (simp add: init_def this_helpUrl_init_multipleOutputs this_helpUrl_init_output
        this_helpUrl_init_stmtConns this_helpUrl_init_default_stmtConns
        this_helpUrl_init_tooltip)
  then show ?thesis
    by (simp add: init_helpUrl_def setInputsInline_def setColour_def)
qed

text \<open>One pass of the loop over the parameter names, and the loop.\<close>

lemma parameter_code_cases:
  "parameter_code g name acc =
     (case invariant_error g name of
        Some e \<Rightarrow> Inl e
      | None \<Rightarrow>
          (case collaborator_result g name of
             Some (Inl e) \<Rightarrow> Inl e
           | _ \<Rightarrow> Inr (acc @ fragments g name)))"
  by (simp add: parameter_code_def invariant_error_def collaborator_result_def fragments_def
      resolve_def goog_asserts_assert_def
      split: option.splits sum.splits)

lemma invariant_error_None: "invariant_error g name = None \<longleftrightarrow> resolves_well g name"
  by (simp add: invariant_error_def resolves_well_def split: resolution.splits)

lemma parameter_code_ok:
  "resolves_well g name \<Longrightarrow> collaborator_succeeds g name \<Longrightarrow>
   parameter_code g name acc = Inr (acc @ fragments g name)"
  by (auto simp: parameter_code_cases invariant_error_None [symmetric] collaborator_succeeds_def
      split: option.splits sum.splits)

lemma parameter_code_bad:
  "\<not> resolves_well g name \<Longrightarrow>
   \<exists>e. invariant_error g name = Some e \<and> parameter_code g name acc = Inl e"
  by (auto simp: parameter_code_cases invariant_error_None [symmetric])

lemma parameter_code_Inl:
  "resolves_well g name \<Longrightarrow> parameter_code g name acc = Inl e \<Longrightarrow>
   collaborator_result g name = Some (Inl e)"
  by (auto simp: parameter_code_cases invariant_error_None [symmetric]
      split: option.splits sum.splits)

lemma forEach_parameter_ok:
  "\<forall>name \<in> set names. resolves_well g name \<and> collaborator_succeeds g name \<Longrightarrow>
   forEach_parameter g names acc = Inr (acc @ concat (map (fragments g) names))"
  by (induction names arbitrary: acc) (simp_all add: parameter_code_ok)

lemma forEach_parameter_bad:
  "\<exists>name \<in> set names. \<not> resolves_well g name \<Longrightarrow> \<exists>e. forEach_parameter g names acc = Inl e"
proof (induction names arbitrary: acc)
  case Nil
  then show ?case by simp
next
  case (Cons name names)
  show ?case
  proof (cases "parameter_code g name acc")
    case (Inl e)
    then show ?thesis by simp
  next
    case (Inr acc')
    then have "resolves_well g name"
      using parameter_code_bad [of g name acc] by auto
    with Cons.prems have "\<exists>name \<in> set names. \<not> resolves_well g name"
      by auto
    with Cons.IH [of acc'] Inr show ?thesis by simp
  qed
qed

lemma forEach_parameter_first_bad:
  "\<forall>name \<in> set ok. resolves_well g name \<and> collaborator_succeeds g name \<Longrightarrow>
   \<not> resolves_well g bad \<Longrightarrow>
   \<exists>e. invariant_error g bad = Some e \<and> forEach_parameter g (ok @ bad # rest) acc = Inl e"
proof (induction ok arbitrary: acc)
  case Nil
  then show ?case
    using parameter_code_bad [of g bad acc] by auto
next
  case (Cons name ok)
  then show ?case
    by (simp add: parameter_code_ok)
qed

lemma forEach_parameter_Inl:
  "\<forall>name \<in> set names. resolves_well g name \<Longrightarrow> forEach_parameter g names acc = Inl e \<Longrightarrow>
   \<exists>name \<in> set names. collaborator_result g name = Some (Inl e)"
proof (induction names arbitrary: acc)
  case Nil
  then show ?case by simp
next
  case (Cons name names)
  show ?case
  proof (cases "parameter_code g name acc")
    case (Inl e')
    with Cons.prems show ?thesis
      using parameter_code_Inl [of g name acc e'] by auto
  next
    case (Inr acc')
    with Cons.prems Cons.IH [of acc'] show ?thesis by auto
  qed
qed

subsection \<open>Name derivation\<close>

text \<open>
  C1 (as stated): the block name is the prefix, an underscore and \<^verbatim>\<open>info.blockName\<close>
  whenever \<^verbatim>\<open>blockName\<close> is present. This fails for a \<^verbatim>\<open>blockName\<close> that is present and
  empty: the name is then taken from \<^verbatim>\<open>funcName\<close>.
\<close>

theorem getBlockName_present_counterexample:
  "blockName (\<lparr>blockName = Some [], funcName = Some ''turnLeft'', output' = None,
       stmtConns = None, multipleOutputs = None, tooltip = None, helpUrl = None,
       helpUrlType = None\<rparr> :: unit block_info) = Some []
   \<and> getBlockName ''turtle'' (\<lparr>blockName = Some [], funcName = Some ''turnLeft'', output' = None,
       stmtConns = None, multipleOutputs = None, tooltip = None, helpUrl = None,
       helpUrlType = None\<rparr> :: unit block_info) = Inr ''turtle_turn_left''
   \<and> getBlockName ''turtle'' (\<lparr>blockName = Some [], funcName = Some ''turnLeft'', output' = None,
       stmtConns = None, multipleOutputs = None, tooltip = None, helpUrl = None,
       helpUrlType = None\<rparr> :: unit block_info) \<noteq> Inr (''turtle'' @ ''_'' @ [])"
  by code_simp

text \<open>
  C1 (amended): the block name is the prefix, an underscore and a suffix. The suffix is
  \<^verbatim>\<open>info.blockName\<close>, as it is, when \<^verbatim>\<open>blockName\<close> is present and not empty; otherwise it
  is \<^verbatim>\<open>convertFromCamelCase(info.funcName)\<close>; when \<^verbatim>\<open>blockName\<close> is absent or empty and
  \<^verbatim>\<open>funcName\<close> is missing or empty, the assertion on \<^verbatim>\<open>funcName\<close> fails. The names of
  \<^verbatim>\<open>{funcName: 'turnLeft'}\<close> under \<^verbatim>\<open>turtle\<close> and of \<^verbatim>\<open>{blockName: 'custom'}\<close> under \<^verbatim>\<open>os\<close>
  are \<^verbatim>\<open>turtle_turn_left\<close> and \<^verbatim>\<open>os_custom\<close>.
\<close>

theorem getBlockName_suffix:
  fixes i :: "'f block_info"
  shows
  "(blockName i = Some n \<and> n \<noteq> [] \<longrightarrow> getBlockName p i = Inr (p @ ''_'' @ n))
   \<and> ((blockName i = None \<or> blockName i = Some []) \<and> funcName i = Some f \<and> f \<noteq> []
        \<longrightarrow> getBlockName p i = Inr (p @ ''_'' @ convertFromCamelCase f))
   \<and> ((blockName i = None \<or> blockName i = Some [])
        \<and> (funcName i = None \<or> funcName i = Some [])
        \<longrightarrow> getBlockName p i = Inl (AssertionError ''info.funcName not defined''))
   \<and> getBlockName ''turtle'' (empty_info\<lparr>funcName := Some ''turnLeft''\<rparr> :: 'f block_info)
        = Inr ''turtle_turn_left''
   \<and> getBlockName ''os'' (empty_info\<lparr>blockName := Some ''custom''\<rparr> :: 'f block_info)
        = Inr ''os_custom''"
proof -
  have "getBlockName ''turtle'' (empty_info\<lparr>funcName := Some ''turnLeft''\<rparr> :: 'f block_info)
          = Inr (''turtle'' @ ''_'' @ convertFromCamelCase ''turnLeft'')"
    by (rule getBlockName_funcName) (simp_all add: empty_info_def)
  moreover have "convertFromCamelCase ''turnLeft'' = ''turn_left''"
    by code_simp
  moreover have "getBlockName ''os'' (empty_info\<lparr>blockName := Some ''custom''\<rparr> :: 'f block_info)
          = Inr (''os'' @ ''_'' @ ''custom'')"
    by (rule getBlockName_blockName) (simp_all add: empty_info_def)
  ultimately show ?thesis
    using getBlockName_blockName [of i n p] getBlockName_funcName [of i f p]
      getBlockName_fails [of i p]
    by simp
qed

theorem getBlockName_suffix_witness:
  "getBlockName ''peripheral'' (empty_info\<lparr>blockName := Some ''wrap''\<rparr> :: unit block_info)
     = Inr ''peripheral_wrap''
   \<and> getBlockName ''peripheral'' (empty_info\<lparr>funcName := Some ''getNames''\<rparr> :: unit block_info)
     = Inr ''peripheral_get_names''
   \<and> getBlockName ''peripheral'' (empty_info :: unit block_info)
     = Inl (AssertionError ''info.funcName not defined'')"
proof -
  have c: "convertFromCamelCase ''getNames'' = ''get_names''"
    by code_simp
  have "getBlockName ''peripheral'' (empty_info\<lparr>blockName := Some ''wrap''\<rparr> :: unit block_info)
          = Inr (''peripheral'' @ ''_'' @ ''wrap'')"
    using
      getBlockName_suffix [of "empty_info\<lparr>blockName := Some ''wrap''\<rparr> :: unit block_info"
        "''wrap''" "''peripheral''"]
    by (simp add: empty_info_def)
  moreover
  have "getBlockName ''peripheral'' (empty_info\<lparr>funcName := Some ''getNames''\<rparr> :: unit block_info)
          = Inr (''peripheral'' @ ''_'' @ convertFromCamelCase ''getNames'')"
    using
      getBlockName_suffix [of "empty_info\<lparr>funcName := Some ''getNames''\<rparr> :: unit block_info"
        _ "''peripheral''" "''getNames''"]
    by (simp add: empty_info_def)
  moreover
  have "getBlockName ''peripheral'' (empty_info :: unit block_info)
          = Inl (AssertionError ''info.funcName not defined'')"
    using getBlockName_suffix [of "empty_info :: unit block_info" _ "''peripheral''"]
    by (simp add: empty_info_def)
  ultimately show ?thesis
    by (simp add: c)
qed

text \<open>
  C2: on a string of ASCII letters, \<^verbatim>\<open>convertFromCamelCase\<close> puts one underscore before
  each run of upper-case letters that follows a lower-case letter and lower-cases every
  letter, so that the result consists of lower-case letters and underscores; the letters
  of one run share the underscore. The results for \<^verbatim>\<open>turn\<close>, \<^verbatim>\<open>isPresent\<close>, \<^verbatim>\<open>getID\<close> and
  \<^verbatim>\<open>lightGray\<close> are \<^verbatim>\<open>turn\<close>, \<^verbatim>\<open>is_present\<close>, \<^verbatim>\<open>get_id\<close> and \<^verbatim>\<open>light_gray\<close>.
\<close>

theorem convertFromCamelCase_rule:
  "(list_all is_ascii_letter s \<longrightarrow>
      convertFromCamelCase s = mixed_case_rule s
      \<and> list_all (\<lambda>c. is_az c \<or> c = CHR ''_'') (convertFromCamelCase s))
   \<and> convertFromCamelCase ''turn'' = ''turn''
   \<and> convertFromCamelCase ''isPresent'' = ''is_present''
   \<and> convertFromCamelCase ''getID'' = ''get_id''
   \<and> convertFromCamelCase ''lightGray'' = ''light_gray''"
proof -
  have "convertFromCamelCase ''turn'' = ''turn''"
    by code_simp
  moreover have "convertFromCamelCase ''isPresent'' = ''is_present''"
    by code_simp
  moreover have "convertFromCamelCase ''getID'' = ''get_id''"
    by code_simp
  moreover have "convertFromCamelCase ''lightGray'' = ''light_gray''"
    by code_simp
  ultimately show ?thesis
    using convertFromCamelCase_mixed_case_rule [of s] convertFromCamelCase_lowercase [of s]
    by simp
qed

theorem convertFromCamelCase_rule_witness:
  "list_all is_ascii_letter ''getHTTPCode''
   \<and> convertFromCamelCase ''getHTTPCode'' = mixed_case_rule ''getHTTPCode''
   \<and> mixed_case_rule ''getHTTPCode'' = ''get_httpcode''"
proof -
  have h: "list_all is_ascii_letter ''getHTTPCode''"
    by code_simp
  have r: "mixed_case_rule ''getHTTPCode'' = ''get_httpcode''"
    by code_simp
  from h r show ?thesis
    using convertFromCamelCase_rule [of "''getHTTPCode''"] by simp
qed

text \<open>
  C10: a \<^verbatim>\<open>blockName\<close> that is present but empty is not used as the suffix. The block name
  is the one the same \<^verbatim>\<open>info\<close> without \<^verbatim>\<open>blockName\<close> gets: the prefix, an underscore and
  \<^verbatim>\<open>convertFromCamelCase(info.funcName)\<close>, or the failed assertion when \<^verbatim>\<open>funcName\<close> is
  missing or empty as well.
\<close>

theorem getBlockName_empty_blockName:
  fixes i :: "'f block_info"
  shows
  "blockName i = Some [] \<longrightarrow>
     getBlockName p i = getBlockName p (i\<lparr>blockName := None\<rparr>)
     \<and> getBlockName p i \<noteq> Inr (p @ ''_'' @ [])
     \<and> (funcName i = Some f \<and> f \<noteq> [] \<longrightarrow>
          getBlockName p i = Inr (p @ ''_'' @ convertFromCamelCase f))
     \<and> (funcName i = None \<or> funcName i = Some [] \<longrightarrow>
          getBlockName p i = Inl (AssertionError ''info.funcName not defined''))"
proof
  assume e: "blockName i = Some []"
  have same: "getBlockName p i = getBlockName p (i\<lparr>blockName := None\<rparr>)"
    using e by (simp add: getBlockName_def truthy_string_def cong: sum.case_cong)
  have named: "getBlockName p i = Inr (p @ ''_'' @ convertFromCamelCase f)"
    if "funcName i = Some f" "f \<noteq> []" for f
    using e that by (simp add: getBlockName_funcName)
  have fails: "getBlockName p i = Inl (AssertionError ''info.funcName not defined'')"
    if "funcName i = None \<or> funcName i = Some []"
    using e that by (simp add: getBlockName_fails)
  have "getBlockName p i \<noteq> Inr (p @ ''_'' @ [])"
  proof (cases "funcName i = None \<or> funcName i = Some []")
    case True
    then show ?thesis by (simp add: fails)
  next
    case False
    then obtain g where g: "funcName i = Some g" "g \<noteq> []"
      by auto
    then show ?thesis
      by (simp add: named convertFromCamelCase_Nil)
  qed
  with same named fails
  show "getBlockName p i = getBlockName p (i\<lparr>blockName := None\<rparr>)
     \<and> getBlockName p i \<noteq> Inr (p @ ''_'' @ [])
     \<and> (funcName i = Some f \<and> f \<noteq> [] \<longrightarrow>
          getBlockName p i = Inr (p @ ''_'' @ convertFromCamelCase f))
     \<and> (funcName i = None \<or> funcName i = Some [] \<longrightarrow>
          getBlockName p i = Inl (AssertionError ''info.funcName not defined''))"
    by blast
qed

theorem getBlockName_empty_blockName_witness:
  "blockName (empty_info\<lparr>blockName := Some [], funcName := Some ''getID''\<rparr> :: unit block_info)
     = Some []
   \<and> getBlockName ''os'' (empty_info\<lparr>blockName := Some [], funcName := Some ''getID''\<rparr>
        :: unit block_info) = Inr ''os_get_id''
   \<and> getBlockName ''os'' (empty_info\<lparr>blockName := Some []\<rparr> :: unit block_info)
        = Inl (AssertionError ''info.funcName not defined'')"
proof -
  define i1 :: "unit block_info"
    where "i1 = empty_info\<lparr>blockName := Some [], funcName := Some ''getID''\<rparr>"
  define i2 :: "unit block_info"
    where "i2 = empty_info\<lparr>blockName := Some []\<rparr>"
  have c: "convertFromCamelCase ''getID'' = ''get_id''"
    by code_simp
  have h1: "blockName i1 = Some []" "funcName i1 = Some ''getID''" "''getID'' \<noteq> []"
    by (simp_all add: i1_def empty_info_def)
  have h2: "blockName i2 = Some []" "funcName i2 = None"
    by (simp_all add: i2_def empty_info_def)
  have "getBlockName ''os'' i1 = Inr (''os'' @ ''_'' @ convertFromCamelCase ''getID'')"
    using getBlockName_empty_blockName [of i1 "''os''" "''getID''"] h1 by blast
  moreover
  have "getBlockName ''os'' i2 = Inl (AssertionError ''info.funcName not defined'')"
    using getBlockName_empty_blockName [of i2 "''os''"] h2 by blast
  ultimately show ?thesis
    using h1(1) by (simp add: c i1_def i2_def)
qed

subsection \<open>Initialisation\<close>

text \<open>
  C3: when \<^verbatim>\<open>info.multipleOutputs\<close> and \<^verbatim>\<open>info.output\<close> are undefined and
  \<^verbatim>\<open>info.stmtConns\<close> is not \<^verbatim>\<open>NONE\<close> (undefined included), \<^verbatim>\<open>init\<close> enables the previous and
  the next statement connector of the block. When \<^verbatim>\<open>info.stmtConns\<close> is \<^verbatim>\<open>NONE\<close>, \<^verbatim>\<open>init\<close>
  enables neither: it leaves both connectors as they were, so a block that had none has
  none.
\<close>

theorem init_statement_connections:
  "multipleOutputs (info b) = None \<and> output' (info b) = None \<longrightarrow>
     (stmtConns (info b) \<noteq> Some NONE \<longrightarrow>
        previousConnection (init b) \<and> nextConnection (init b))
     \<and> (stmtConns (info b) = Some NONE \<longrightarrow>
          previousConnection (init b) = previousConnection b
          \<and> nextConnection (init b) = nextConnection b)"
  by (simp add: connections_init info_init truthy_number_def BOTH_bits NONE_def)

theorem init_statement_connections_witness:
  "(let b = \<lparr>prefix = ''turtle'', colour = 120,
              info = empty_info\<lparr>funcName := Some ''turnLeft''\<rparr> :: unit block_info,
              this_blockName = ''turtle_turn_left'', this_helpUrl = None,
              this_multipleOutputs = None, host_colour = None, inputsInline = None,
              host_tooltip = None, previousConnection = False, nextConnection = False,
              outputConnection = None\<rparr>
    in Block ''turtle'' 120 (info b) = Inr b
       \<and> previousConnection (init b) \<and> nextConnection (init b)
       \<and> previousConnection (init (b\<lparr>info := (info b)\<lparr>stmtConns := Some PREVIOUS\<rparr>\<rparr>))
       \<and> nextConnection (init (b\<lparr>info := (info b)\<lparr>stmtConns := Some PREVIOUS\<rparr>\<rparr>))
       \<and> \<not> previousConnection (init (b\<lparr>info := (info b)\<lparr>stmtConns := Some NONE\<rparr>\<rparr>))
       \<and> \<not> nextConnection (init (b\<lparr>info := (info b)\<lparr>stmtConns := Some NONE\<rparr>\<rparr>)))"
proof -
  define b :: "unit block" where
    "b = \<lparr>prefix = ''turtle'', colour = 120,
          info = empty_info\<lparr>funcName := Some ''turnLeft''\<rparr>,
          this_blockName = ''turtle_turn_left'', this_helpUrl = None,
          this_multipleOutputs = None, host_colour = None, inputsInline = None,
          host_tooltip = None, previousConnection = False, nextConnection = False,
          outputConnection = None\<rparr>"
  have c: "convertFromCamelCase ''turnLeft'' = ''turn_left''"
    by code_simp
  have "getBlockName ''turtle'' (info b) = Inr ''turtle_turn_left''"
    using getBlockName_funcName [of "info b" "''turnLeft''" "''turtle''"]
    by (simp add: b_def empty_info_def c)
  then have constructed: "Block ''turtle'' 120 (info b) = Inr b"
    by (simp add: Block_def b_def)
  have "previousConnection (init b) \<and> nextConnection (init b)"
    using init_statement_connections [of b]
    by (simp add: b_def empty_info_def)
  moreover
  have "previousConnection (init (b\<lparr>info := (info b)\<lparr>stmtConns := Some PREVIOUS\<rparr>\<rparr>))
        \<and> nextConnection (init (b\<lparr>info := (info b)\<lparr>stmtConns := Some PREVIOUS\<rparr>\<rparr>))"
    using init_statement_connections [of "b\<lparr>info := (info b)\<lparr>stmtConns := Some PREVIOUS\<rparr>\<rparr>"]
    by (simp add: b_def empty_info_def PREVIOUS_def NONE_def)
  moreover
  have "\<not> previousConnection (init (b\<lparr>info := (info b)\<lparr>stmtConns := Some NONE\<rparr>\<rparr>))
        \<and> \<not> nextConnection (init (b\<lparr>info := (info b)\<lparr>stmtConns := Some NONE\<rparr>\<rparr>))"
    using init_statement_connections [of "b\<lparr>info := (info b)\<lparr>stmtConns := Some NONE\<rparr>\<rparr>"]
    by (simp add: b_def empty_info_def)
  ultimately show ?thesis
    using constructed unfolding b_def Let_def by blast
qed

text \<open>
  C6: the documentation of \<^verbatim>\<open>info\<close> says that \<^verbatim>\<open>helpUrlType\<close> is ignored if \<^verbatim>\<open>helpUrl\<close> is
  provided. \<^verbatim>\<open>init\<close> never reads \<^verbatim>\<open>info.helpUrl\<close>: with \<^verbatim>\<open>helpUrlType\<close> equal to
  \<^verbatim>\<open>PREFIX_NAME\<close> it assigns the derived address to the help URL of the block, also when
  \<^verbatim>\<open>info.helpUrl\<close> is given and the block already carries that address. Here the block
  \<^verbatim>\<open>os_shutdown\<close> with the explicit address \<^verbatim>\<open>http://example.com/shutdown\<close> ends up with
  the address derived from the prefix and the function name.
\<close>

theorem init_overwrites_explicit_helpUrl:
  "this_helpUrl (init
     \<lparr>prefix = ''os'', colour = 0,
      info = \<lparr>blockName = None, funcName = Some ''shutdown'', output' = None,
               stmtConns = None, multipleOutputs = None,
               tooltip = (None :: unit tooltip_value option),
               helpUrl = Some ''http://example.com/shutdown'',
               helpUrlType = Some PREFIX_NAME\<rparr>,
      this_blockName = ''os_shutdown'',
      this_helpUrl = Some ''http://example.com/shutdown'',
      this_multipleOutputs = None, host_colour = None, inputsInline = None,
      host_tooltip = None, previousConnection = False, nextConnection = False,
      outputConnection = None\<rparr>)
   = Some ''http://computercraft.info/wiki/Os.shutdown''"
proof -
  have "toUpperCase (charAt0 ''os'') @ slice1 ''os'' = ''Os''"
    by code_simp
  then show ?thesis
    by (simp add: this_helpUrl_init BASE_HELP_URL_def to_string_def)
qed

text \<open>
  C7 (as stated): \<^verbatim>\<open>init\<close> leaves every property of \<^verbatim>\<open>info\<close> unchanged. This fails when
  the default for the statement connectors applies: \<^verbatim>\<open>init\<close> assigns \<^verbatim>\<open>BOTH\<close> to
  \<^verbatim>\<open>info.stmtConns\<close>.
\<close>

theorem init_changes_info_counterexample:
  "info (init
     \<lparr>prefix = ''turtle'', colour = 120,
      info = \<lparr>blockName = None, funcName = Some ''turnLeft'', output' = None,
               stmtConns = None, multipleOutputs = None,
               tooltip = (None :: unit tooltip_value option),
               helpUrl = None, helpUrlType = None\<rparr>,
      this_blockName = ''turtle_turn_left'', this_helpUrl = None,
      this_multipleOutputs = None, host_colour = None, inputsInline = None,
      host_tooltip = None, previousConnection = False, nextConnection = False,
      outputConnection = None\<rparr>)
   \<noteq> \<lparr>blockName = None, funcName = Some ''turnLeft'', output' = None,
        stmtConns = None, multipleOutputs = None,
        tooltip = (None :: unit tooltip_value option),
        helpUrl = None, helpUrlType = None\<rparr>"
  by (simp add: info_init truthy_number_def NONE_def)

text \<open>
  C7 (amended): \<^verbatim>\<open>init\<close> leaves every property of \<^verbatim>\<open>info\<close> other than \<^verbatim>\<open>stmtConns\<close>
  unchanged. It assigns \<^verbatim>\<open>BOTH\<close> to \<^verbatim>\<open>info.stmtConns\<close> when the default for the statement
  connectors applies (\<^verbatim>\<open>multipleOutputs\<close> falsy, \<^verbatim>\<open>output\<close> undefined, \<^verbatim>\<open>stmtConns\<close> not
  \<^verbatim>\<open>NONE\<close>) and leaves \<^verbatim>\<open>stmtConns\<close> unchanged as well otherwise.
\<close>

theorem init_info_frame:
  "info (init b) =
     (if \<not> truthy_number (multipleOutputs (info b)) \<and> output' (info b) = None
         \<and> stmtConns (info b) \<noteq> Some NONE
      then (info b)\<lparr>stmtConns := Some BOTH\<rparr>
      else info b)"
  by (rule info_init)

theorem init_info_frame_witness:
  "(let b = \<lparr>prefix = ''turtle'', colour = 120,
              info = empty_info\<lparr>funcName := Some ''getFuelLevel'', output' := Some (TypeString ''Number'')\<rparr>
                       :: unit block_info,
              this_blockName = ''turtle_get_fuel_level'', this_helpUrl = None,
              this_multipleOutputs = None, host_colour = None, inputsInline = None,
              host_tooltip = None, previousConnection = False, nextConnection = False,
              outputConnection = None\<rparr>
    in info (init b) = info b
       \<and> info (init (b\<lparr>info := (info b)\<lparr>output' := None\<rparr>\<rparr>))
           = (info b)\<lparr>output' := None, stmtConns := Some BOTH\<rparr>)"
proof -
  define b :: "unit block" where
    "b = \<lparr>prefix = ''turtle'', colour = 120,
          info = empty_info\<lparr>funcName := Some ''getFuelLevel'', output' := Some (TypeString ''Number'')\<rparr>,
          this_blockName = ''turtle_get_fuel_level'', this_helpUrl = None,
          this_multipleOutputs = None, host_colour = None, inputsInline = None,
          host_tooltip = None, previousConnection = False, nextConnection = False,
          outputConnection = None\<rparr>"
  have "info (init b) = info b"
    using init_info_frame [of b] by (simp add: b_def empty_info_def)
  moreover
  have "info (init (b\<lparr>info := (info b)\<lparr>output' := None\<rparr>\<rparr>))
          = (info b)\<lparr>output' := None, stmtConns := Some BOTH\<rparr>"
    using init_info_frame [of "b\<lparr>info := (info b)\<lparr>output' := None\<rparr>\<rparr>"]
    by (simp add: b_def empty_info_def truthy_number_def NONE_def)
  ultimately show ?thesis
    unfolding b_def Let_def by blast
qed

subsection \<open>Code generation\<close>

text \<open>
  C4: when every parameter name resolves to a value input or to a dropdown title and the
  code of each is available, \<^verbatim>\<open>generateLuaInner_\<close> returns the function name, an opening
  parenthesis, the fragments of the names in the order of \<^verbatim>\<open>getOrderedParameterNames\<close>
  joined by a comma and a space, and a closing parenthesis. A value input contributes its
  code; a dropdown contributes the result of the hook, and nothing at all when that
  result is falsy.
\<close>

theorem generateLuaInner_fragments:
  "((\<forall>name \<in> set (getOrderedParameterNames g).
        resolves_well g name \<and> collaborator_succeeds g name) \<longrightarrow>
      generateLuaInner g =
        Inr (getFuncName g @ ''(''
             @ join '', '' (concat (map (fragments g) (getOrderedParameterNames g))) @ '')''))
   \<and> (resolve g name = ValueInput input \<and> valueToCode g (input_name input) = Inr code \<longrightarrow>
        fragments g name = [code])
   \<and> (resolve g name = Dropdown title \<and> dropdownCode g title = Inr (Some code) \<and> code \<noteq> [] \<longrightarrow>
        fragments g name = [code])
   \<and> (resolve g name = Dropdown title
        \<and> (dropdownCode g title = Inr None \<or> dropdownCode g title = Inr (Some [])) \<longrightarrow>
        fragments g name = [])"
proof -
  have "generateLuaInner g =
          Inr (getFuncName g @ ''(''
               @ join '', '' (concat (map (fragments g) (getOrderedParameterNames g))) @ '')'')"
    if "\<forall>name \<in> set (getOrderedParameterNames g).
          resolves_well g name \<and> collaborator_succeeds g name"
    using forEach_parameter_ok [OF that, of "[]"] by (simp add: generateLuaInner_def)
  moreover have "fragments g name = [code]"
    if "resolve g name = ValueInput input" "valueToCode g (input_name input) = Inr code"
    using that by (simp add: fragments_def)
  moreover have "fragments g name = [code]"
    if "resolve g name = Dropdown title" "dropdownCode g title = Inr (Some code)" "code \<noteq> []"
    using that by (simp add: fragments_def truthy_string_def to_string_def)
  moreover have "fragments g name = []"
    if "resolve g name = Dropdown title"
      "dropdownCode g title = Inr None \<or> dropdownCode g title = Inr (Some [])"
    using that by (auto simp: fragments_def truthy_string_def)
  ultimately show ?thesis
    by blast
qed

theorem generateLuaInner_fragments_witness:
  "(let g = \<lparr>getOrderedParameterNames = [''SIDE'', ''COUNT'', ''MODE''],
              getInput = (\<lambda>name.
                if name = ''COUNT'' then Some \<lparr>input_name = ''COUNT'', input_type = INPUT_VALUE\<rparr>
                else if name = ''DO'' then Some \<lparr>input_name = ''DO'', input_type = NEXT_STATEMENT\<rparr>
                else None),
              getTitle = (\<lambda>name.
                if name = ''SIDE'' then Some ''left''
                else if name = ''MODE'' then Some []
                else if name = ''LABEL'' then Some ''label''
                else None),
              instanceof_FieldDropdown = (\<lambda>title. title \<noteq> ''label''),
              valueToCode = (\<lambda>name. Inr ''n + 1''),
              dropdownCode = (\<lambda>title. Inr (if title = [] then None else Some title)),
              getFuncName = ''turtle.dig'', ORDER_HIGH = 1\<rparr>
    in (\<forall>name \<in> set (getOrderedParameterNames g).
          resolves_well g name \<and> collaborator_succeeds g name)
       \<and> fragments g ''SIDE'' = [''left'']
       \<and> fragments g ''COUNT'' = [''n + 1'']
       \<and> fragments g ''MODE'' = []
       \<and> generateLuaInner g = Inr ''turtle.dig(left, n + 1)'')"
proof -
  define g :: "string generator" where
    "g = \<lparr>getOrderedParameterNames = [''SIDE'', ''COUNT'', ''MODE''],
          getInput = (\<lambda>name.
            if name = ''COUNT'' then Some \<lparr>input_name = ''COUNT'', input_type = INPUT_VALUE\<rparr>
            else if name = ''DO'' then Some \<lparr>input_name = ''DO'', input_type = NEXT_STATEMENT\<rparr>
            else None),
          getTitle = (\<lambda>name.
            if name = ''SIDE'' then Some ''left''
            else if name = ''MODE'' then Some []
            else if name = ''LABEL'' then Some ''label''
            else None),
          instanceof_FieldDropdown = (\<lambda>title. title \<noteq> ''label''),
          valueToCode = (\<lambda>name. Inr ''n + 1''),
          dropdownCode = (\<lambda>title. Inr (if title = [] then None else Some title)),
          getFuncName = ''turtle.dig'', ORDER_HIGH = 1\<rparr>"
  have names: "getOrderedParameterNames g = [''SIDE'', ''COUNT'', ''MODE'']"
    by (simp add: g_def)
  have r: "resolve g ''SIDE'' = Dropdown ''left''"
    "resolve g ''COUNT'' = ValueInput \<lparr>input_name = ''COUNT'', input_type = INPUT_VALUE\<rparr>"
    "resolve g ''MODE'' = Dropdown []"
    by (simp_all add: g_def resolve_def)
  have c: "dropdownCode g ''left'' = Inr (Some ''left'')" "dropdownCode g [] = Inr None"
    "valueToCode g ''COUNT'' = Inr ''n + 1''"
    by (simp_all add: g_def)
  have ok: "\<forall>name \<in> set (getOrderedParameterNames g).
              resolves_well g name \<and> collaborator_succeeds g name"
    by (simp add: names r c resolves_well_def collaborator_succeeds_def collaborator_result_def)
  have f1: "fragments g ''SIDE'' = [''left'']"
    using generateLuaInner_fragments [of g "''SIDE''" _ "''left''" "''left''"] r c by simp
  have f2: "fragments g ''COUNT'' = [''n + 1'']"
    using generateLuaInner_fragments
      [of g "''COUNT''" "\<lparr>input_name = ''COUNT'', input_type = INPUT_VALUE\<rparr>" "''n + 1''"] r c
    by simp
  have f3: "fragments g ''MODE'' = []"
    using generateLuaInner_fragments [of g "''MODE''" _ _ "[]"] r c by simp
  have "generateLuaInner g =
          Inr (getFuncName g @ ''(''
               @ join '', '' (concat (map (fragments g) (getOrderedParameterNames g))) @ '')'')"
    using generateLuaInner_fragments [of g] ok by blast
  then have "generateLuaInner g = Inr ''turtle.dig(left, n + 1)''"
    by (simp add: names f1 f2 f3) (simp add: g_def)
  with ok f1 f2 f3 show ?thesis
    unfolding g_def Let_def by blast
qed

text \<open>
  C5: \<^verbatim>\<open>generateLua\<close> returns the pair of the code and \<^verbatim>\<open>ORDER_HIGH\<close> exactly when the block
  has an output connection, and otherwise the code followed by a newline, where the code
  is the result of \<^verbatim>\<open>generateLuaInner_\<close>; a failure of \<^verbatim>\<open>generateLuaInner_\<close> is passed on.
\<close>

theorem generateLua_result:
  "(generateLuaInner g = Inr expr \<longrightarrow>
      (outputConnection b \<noteq> None \<longrightarrow> generateLua g b = Inr (CodeAndOrder expr (ORDER_HIGH g)))
      \<and> (outputConnection b = None \<longrightarrow> generateLua g b = Inr (CodeString (expr @ [CHR 0x0A])))
      \<and> ((\<exists>code order. generateLua g b = Inr (CodeAndOrder code order))
           \<longleftrightarrow> outputConnection b \<noteq> None))
   \<and> (generateLuaInner g = Inl e \<longrightarrow> generateLua g b = Inl e)"
  by (auto simp: generateLua_def)

theorem generateLua_result_witness:
  "(let g = \<lparr>getOrderedParameterNames = [''COUNT''],
                getInput = (\<lambda>name.
                  if name = ''COUNT'' then Some \<lparr>input_name = ''COUNT'', input_type = INPUT_VALUE\<rparr>
                  else if name = ''DO'' then Some \<lparr>input_name = ''DO'', input_type = NEXT_STATEMENT\<rparr>
                  else None),
                getTitle = (\<lambda>name.
                  if name = ''SIDE'' then Some ''left''
                  else if name = ''MODE'' then Some []
                  else if name = ''LABEL'' then Some ''label''
                  else None),
                instanceof_FieldDropdown = (\<lambda>title. title \<noteq> ''label''),
                valueToCode = (\<lambda>name. Inr ''n + 1''),
                dropdownCode = (\<lambda>title. Inr (if title = [] then None else Some title)),
                getFuncName = ''turtle.dig'', ORDER_HIGH = 1\<rparr>;
        b = \<lparr>prefix = ''turtle'', colour = 120,
              info = empty_info\<lparr>funcName := Some ''dig''\<rparr> :: unit block_info,
              this_blockName = ''turtle_dig'', this_helpUrl = None,
              this_multipleOutputs = None, host_colour = None, inputsInline = None,
              host_tooltip = None, previousConnection = False, nextConnection = False,
              outputConnection = None\<rparr>
    in generateLuaInner g = Inr ''turtle.dig(n + 1)''
       \<and> outputConnection b = None
       \<and> generateLua g b = Inr (CodeString (''turtle.dig(n + 1)'' @ [CHR 0x0A]))
       \<and> outputConnection (init (b\<lparr>info := (info b)\<lparr>output' := Some TypeNull\<rparr>\<rparr>)) \<noteq> None
       \<and> generateLua g (init (b\<lparr>info := (info b)\<lparr>output' := Some TypeNull\<rparr>\<rparr>))
           = Inr (CodeAndOrder ''turtle.dig(n + 1)'' 1))"
proof -
  define g :: "string generator" where
    "g = \<lparr>getOrderedParameterNames = [''COUNT''],
            getInput = (\<lambda>name.
              if name = ''COUNT'' then Some \<lparr>input_name = ''COUNT'', input_type = INPUT_VALUE\<rparr>
              else if name = ''DO'' then Some \<lparr>input_name = ''DO'', input_type = NEXT_STATEMENT\<rparr>
              else None),
            getTitle = (\<lambda>name.
              if name = ''SIDE'' then Some ''left''
              else if name = ''MODE'' then Some []
              else if name = ''LABEL'' then Some ''label''
              else None),
            instanceof_FieldDropdown = (\<lambda>title. title \<noteq> ''label''),
            valueToCode = (\<lambda>name. Inr ''n + 1''),
            dropdownCode = (\<lambda>title. Inr (if title = [] then None else Some title)),
            getFuncName = ''turtle.dig'', ORDER_HIGH = 1\<rparr>"
  define b :: "unit block" where
    "b = \<lparr>prefix = ''turtle'', colour = 120,
            info = empty_info\<lparr>funcName := Some ''dig''\<rparr> :: unit block_info,
            this_blockName = ''turtle_dig'', this_helpUrl = None,
            this_multipleOutputs = None, host_colour = None, inputsInline = None,
            host_tooltip = None, previousConnection = False, nextConnection = False,
            outputConnection = None\<rparr>"
  define b' where "b' = init (b\<lparr>info := (info b)\<lparr>output' := Some TypeNull\<rparr>\<rparr>)"
  have inner: "generateLuaInner g = Inr ''turtle.dig(n + 1)''"
    by (simp add: generateLuaInner_def parameter_code_def goog_asserts_assert_def g_def)
  have no_output: "outputConnection b = None"
    by (simp add: b_def)
  have "outputConnection b' = Some (Some TypeNull)"
    unfolding b'_def b_def by code_simp
  then have has_output: "outputConnection b' \<noteq> None"
    by simp
  have order: "ORDER_HIGH g = 1"
    by (simp add: g_def)
  have "generateLua g b = Inr (CodeString (''turtle.dig(n + 1)'' @ [CHR 0x0A]))"
    using generateLua_result [of g "''turtle.dig(n + 1)''" b] inner no_output by blast
  moreover
  have "generateLua g b' = Inr (CodeAndOrder ''turtle.dig(n + 1)'' (ORDER_HIGH g))"
    using generateLua_result [of g "''turtle.dig(n + 1)''" b'] inner has_output by blast
  ultimately show ?thesis
    using inner no_output has_output unfolding order b'_def unfolding g_def b_def Let_def
    by blast
qed

text \<open>
  C8: \<^verbatim>\<open>generateLuaInner_\<close> fails whenever one of the parameter names resolves badly, that
  is to nothing, to an input that is not a value input, or to a title that is not a
  dropdown. When the names before the first such name resolve well and their code is
  available, the failure is the assertion of that name. When every name resolves to a
  value input or to a dropdown title, none of these assertions fails: a failure can only
  be one that the code generator of an input or the dropdown hook raised, and there is
  none when these succeed.
\<close>

theorem generateLuaInner_failure:
  "((\<exists>name \<in> set (getOrderedParameterNames g). \<not> resolves_well g name) \<longrightarrow>
      (\<exists>e. generateLuaInner g = Inl e))
   \<and> (getOrderedParameterNames g = ok @ bad # rest
        \<and> (\<forall>name \<in> set ok. resolves_well g name \<and> collaborator_succeeds g name)
        \<and> \<not> resolves_well g bad \<longrightarrow>
        (\<exists>e. invariant_error g bad = Some e \<and> generateLuaInner g = Inl e))
   \<and> ((\<forall>name \<in> set (getOrderedParameterNames g). resolves_well g name) \<longrightarrow>
        (\<forall>e. generateLuaInner g = Inl e \<longrightarrow>
           (\<exists>name \<in> set (getOrderedParameterNames g). collaborator_result g name = Some (Inl e))))
   \<and> ((\<forall>name \<in> set (getOrderedParameterNames g).
          resolves_well g name \<and> collaborator_succeeds g name) \<longrightarrow>
        (\<exists>code. generateLuaInner g = Inr code))"
proof -
  have "\<exists>e. generateLuaInner g = Inl e"
    if "\<exists>name \<in> set (getOrderedParameterNames g). \<not> resolves_well g name"
    using forEach_parameter_bad [OF that, of "[]"] by (auto simp: generateLuaInner_def)
  moreover
  have "\<exists>e. invariant_error g bad = Some e \<and> generateLuaInner g = Inl e"
    if "getOrderedParameterNames g = ok @ bad # rest"
      "\<forall>name \<in> set ok. resolves_well g name \<and> collaborator_succeeds g name"
      "\<not> resolves_well g bad"
    using forEach_parameter_first_bad [OF that(2,3), of rest "[]"] that(1)
    by (auto simp: generateLuaInner_def)
  moreover
  have "\<exists>name \<in> set (getOrderedParameterNames g). collaborator_result g name = Some (Inl e)"
    if "\<forall>name \<in> set (getOrderedParameterNames g). resolves_well g name"
      "generateLuaInner g = Inl e" for e
  proof -
    from that(2) have "forEach_parameter g (getOrderedParameterNames g) [] = Inl e"
      by (simp add: generateLuaInner_def split: sum.splits)
    with that(1) show ?thesis
      by (rule forEach_parameter_Inl)
  qed
  moreover
  have "\<exists>code. generateLuaInner g = Inr code"
    if "\<forall>name \<in> set (getOrderedParameterNames g).
          resolves_well g name \<and> collaborator_succeeds g name"
    using forEach_parameter_ok [OF that, of "[]"] by (simp add: generateLuaInner_def)
  ultimately show ?thesis
    by blast
qed

theorem generateLuaInner_failure_witness:
  "(let g = \<lparr>getOrderedParameterNames = [''COUNT'', ''SIDE''],
                getInput = (\<lambda>name.
                  if name = ''COUNT'' then Some \<lparr>input_name = ''COUNT'', input_type = INPUT_VALUE\<rparr>
                  else if name = ''DO'' then Some \<lparr>input_name = ''DO'', input_type = NEXT_STATEMENT\<rparr>
                  else None),
                getTitle = (\<lambda>name.
                  if name = ''SIDE'' then Some ''left''
                  else if name = ''MODE'' then Some []
                  else if name = ''LABEL'' then Some ''label''
                  else None),
                instanceof_FieldDropdown = (\<lambda>title. title \<noteq> ''label''),
                valueToCode = (\<lambda>name. Inr ''n + 1''),
                dropdownCode = (\<lambda>title. Inr (if title = [] then None else Some title)),
                getFuncName = ''turtle.dig'', ORDER_HIGH = 1\<rparr>
    in generateLuaInner g = Inr ''turtle.dig(n + 1, left)''
       \<and> generateLuaInner (g\<lparr>getOrderedParameterNames := [''COUNT'', ''DO'', ''SIDE'']\<rparr>)
           = Inl (AssertionError [])
       \<and> generateLuaInner (g\<lparr>getOrderedParameterNames := [''COUNT'', ''ANGLE'']\<rparr>)
           = Inl (AssertionError ''Unable to find input or title named ANGLE'')
       \<and> generateLuaInner (g\<lparr>getOrderedParameterNames := [''LABEL'']\<rparr>)
           = Inl (AssertionError ''Only value inputs and dropdowns are currently supported.'')
       \<and> generateLuaInner (g\<lparr>dropdownCode := generateDropdownCode\<rparr>)
           = Inl (AssertionError ''generateDropdownCode() must be overridden.''))"
proof -
  define g :: "string generator" where
    "g = \<lparr>getOrderedParameterNames = [''COUNT'', ''SIDE''],
            getInput = (\<lambda>name.
              if name = ''COUNT'' then Some \<lparr>input_name = ''COUNT'', input_type = INPUT_VALUE\<rparr>
              else if name = ''DO'' then Some \<lparr>input_name = ''DO'', input_type = NEXT_STATEMENT\<rparr>
              else None),
            getTitle = (\<lambda>name.
              if name = ''SIDE'' then Some ''left''
              else if name = ''MODE'' then Some []
              else if name = ''LABEL'' then Some ''label''
              else None),
            instanceof_FieldDropdown = (\<lambda>title. title \<noteq> ''label''),
            valueToCode = (\<lambda>name. Inr ''n + 1''),
            dropdownCode = (\<lambda>title. Inr (if title = [] then None else Some title)),
            getFuncName = ''turtle.dig'', ORDER_HIGH = 1\<rparr>"
  define g1 where "g1 = g\<lparr>getOrderedParameterNames := [''COUNT'', ''DO'', ''SIDE'']\<rparr>"
  define g2 where "g2 = g\<lparr>getOrderedParameterNames := [''COUNT'', ''ANGLE'']\<rparr>"
  define g3 where "g3 = g\<lparr>getOrderedParameterNames := [''LABEL'']\<rparr>"
  define g4 where "g4 = g\<lparr>dropdownCode := generateDropdownCode\<rparr>"
  note defs = g_def g1_def g2_def g3_def g4_def resolves_well_def resolve_def
    collaborator_succeeds_def collaborator_result_def invariant_error_def
  have "\<forall>name \<in> set (getOrderedParameterNames g).
          resolves_well g name \<and> collaborator_succeeds g name"
    by (simp add: defs)
  then have "\<exists>code. generateLuaInner g = Inr code"
    using generateLuaInner_failure [of g] by blast
  then have w: "generateLuaInner g = Inr ''turtle.dig(n + 1, left)''"
    by (simp add: generateLuaInner_def parameter_code_def goog_asserts_assert_def
        truthy_string_def to_string_def g_def)
  have "getOrderedParameterNames g1 = [''COUNT''] @ ''DO'' # [''SIDE'']"
    "\<forall>name \<in> set [''COUNT'']. resolves_well g1 name \<and> collaborator_succeeds g1 name"
    "\<not> resolves_well g1 ''DO''"
    by (simp_all add: defs)
  then have "\<exists>e. invariant_error g1 ''DO'' = Some e \<and> generateLuaInner g1 = Inl e"
    using generateLuaInner_failure [of g1 "[''COUNT'']" "''DO''" "[''SIDE'']"] by blast
  then have w1: "generateLuaInner g1 = Inl (AssertionError [])"
    by (simp add: defs)
  have "getOrderedParameterNames g2 = [''COUNT''] @ ''ANGLE'' # []"
    "\<forall>name \<in> set [''COUNT'']. resolves_well g2 name \<and> collaborator_succeeds g2 name"
    "\<not> resolves_well g2 ''ANGLE''"
    by (simp_all add: defs)
  then have "\<exists>e. invariant_error g2 ''ANGLE'' = Some e \<and> generateLuaInner g2 = Inl e"
    using generateLuaInner_failure [of g2 "[''COUNT'']" "''ANGLE''" "[]"] by blast
  then have w2: "generateLuaInner g2
      = Inl (AssertionError ''Unable to find input or title named ANGLE'')"
    by (simp add: defs)
  have "\<exists>name \<in> set (getOrderedParameterNames g3). \<not> resolves_well g3 name"
    by (simp add: defs)
  then have "\<exists>e. generateLuaInner g3 = Inl e"
    using generateLuaInner_failure [of g3] by blast
  then have w3: "generateLuaInner g3
      = Inl (AssertionError ''Only value inputs and dropdowns are currently supported.'')"
    by (simp add: generateLuaInner_def parameter_code_def goog_asserts_assert_def g3_def g_def)
  have "\<forall>name \<in> set (getOrderedParameterNames g4). resolves_well g4 name"
    by (simp add: defs)
  then have "\<forall>e. generateLuaInner g4 = Inl e \<longrightarrow>
      (\<exists>name \<in> set (getOrderedParameterNames g4). collaborator_result g4 name = Some (Inl e))"
    using generateLuaInner_failure [of g4] by blast
  then have w4: "generateLuaInner g4
      = Inl (AssertionError ''generateDropdownCode() must be overridden.'')"
    by (simp add: generateLuaInner_def parameter_code_def goog_asserts_assert_def
        generateDropdownCode_def goog_asserts_fail_def g4_def g_def)
  from w w1 w2 w3 w4 show ?thesis
    unfolding g1_def g2_def g3_def g4_def unfolding g_def Let_def by blast
qed

text \<open>
  C9: the base implementation of \<^verbatim>\<open>generateDropdownCode\<close> fails for every field with the
  message that it must be overridden; it returns no code.
\<close>

theorem generateDropdownCode_fails:
  "generateDropdownCode field = Inl (AssertionError ''generateDropdownCode() must be overridden.'')
   \<and> (\<forall>code. generateDropdownCode field \<noteq> Inr code)"
  by (simp add: generateDropdownCode_def goog_asserts_fail_def)

end
